theory Spec2Isabelle
  imports Complex_Main "HOL-Library.Sublist" "HOL-Library.Log_Nat"
begin

section \<open>JavaScript numbers and their renderings\<close>

text \<open>
  The upload widget of \<^verbatim>\<open>staging/js/file-handler.js\<close> computes with JavaScript
  numbers in two places: the size of the selected file in megabytes,
  \<^verbatim>\<open>(file.size / 1024 / 1024).toFixed(2)\<close>, and the upload percentage,
  \<^verbatim>\<open>(progressEvent.loaded / progressEvent.total) * 100\<close>. Both start from byte counts,
  so only the non-negative numbers occur. A number is modelled as \<open>NaN\<close>, \<open>Infinity\<close> or
  the exact rational value of a finite binary64 number; every arithmetic operation rounds its
  exact result to binary64 (nearest, ties to even) with \<open>toDouble\<close>.
\<close>

datatype number = NaN | Infinity | Finite rat

definition pow2 :: "int \<Rightarrow> rat" where
  "pow2 e = (if 0 \<le> e then 2 ^ nat e else 1 / 2 ^ nat (- e))"

definition pow10 :: "int \<Rightarrow> rat" where
  "pow10 e = (if 0 \<le> e then 10 ^ nat e else 1 / 10 ^ nat (- e))"

text \<open>\<open>ilog2 x\<close> is the binary exponent of a positive rational: \<open>2^e \<le> x < 2^(e+1)\<close>.\<close>

definition ilog2 :: "rat \<Rightarrow> int" where
  "ilog2 x = (case quotient_of x of (p, q) \<Rightarrow>
     (let e = bitlen p - bitlen q in if pow2 e \<le> x then e else e - 1))"

definition roundTiesToEven :: "rat \<Rightarrow> int" where
  "roundTiesToEven q =
     (let f = \<lfloor>q\<rfloor>; r = q - of_int f
      in if r < 1 / 2 then f else if 1 / 2 < r then f + 1 else if even f then f else f + 1)"

text \<open>
  Rounding of a non-negative exact value to binary64: 53 significant bits, the spacing of
  the subnormal numbers below \<open>2^-1022\<close>, overflow to \<open>Infinity\<close> when the rounded value
  reaches \<open>2^1024\<close>, that is when its binary exponent reaches 1024.
\<close>

definition toDouble :: "rat \<Rightarrow> number" where
  "toDouble x =
     (if x = 0 then Finite 0
      else let u = pow2 (max (ilog2 x) (- 1022) - 52);
               y = of_int (roundTiesToEven (x / u)) * u
           in if 1024 \<le> ilog2 y then Infinity else Finite y)"

text \<open>The number a byte count (an unsigned integer of the DOM) converts to.\<close>

definition Number_of_nat :: "nat \<Rightarrow> number" where
  "Number_of_nat n = toDouble (of_nat n)"

text \<open>The operators \<^verbatim>\<open>/\<close> and \<^verbatim>\<open>*\<close> on non-negative numbers.\<close>

fun js_divide :: "number \<Rightarrow> number \<Rightarrow> number" where
  "js_divide NaN _ = NaN"
| "js_divide _ NaN = NaN"
| "js_divide Infinity Infinity = NaN"
| "js_divide Infinity (Finite b) = Infinity"
| "js_divide (Finite a) Infinity = Finite 0"
| "js_divide (Finite a) (Finite b) =
     (if b = 0 then (if a = 0 then NaN else Infinity) else toDouble (a / b))"

fun js_multiply :: "number \<Rightarrow> number \<Rightarrow> number" where
  "js_multiply NaN _ = NaN"
| "js_multiply _ NaN = NaN"
| "js_multiply Infinity Infinity = Infinity"
| "js_multiply Infinity (Finite b) = (if b = 0 then NaN else Infinity)"
| "js_multiply (Finite a) Infinity = (if a = 0 then NaN else Infinity)"
| "js_multiply (Finite a) (Finite b) = toDouble (a * b)"

text \<open>\<^verbatim>\<open>Math.round\<close>: the nearest integer, a tie going up.\<close>

fun Math_round :: "number \<Rightarrow> number" where
  "Math_round NaN = NaN"
| "Math_round Infinity = Infinity"
| "Math_round (Finite x) = Finite (of_int \<lfloor>x + 1 / 2\<rfloor>)"

subsection \<open>Decimal digits\<close>

definition digit :: "nat \<Rightarrow> char" where
  "digit d = ''0123456789'' ! (d mod 10)"

fun decimal :: "nat \<Rightarrow> string" where
  "decimal n = (if n < 10 then [digit n] else decimal (n div 10) @ [digit (n mod 10)])"

declare decimal.simps [simp del]

subsection \<open>\<^verbatim>\<open>Number.prototype.toFixed\<close>\<close>

text \<open>
  \<^verbatim>\<open>x.toFixed(f)\<close> takes the integer \<open>n\<close> for which \<open>n / 10^f\<close> is closest to \<open>x\<close>, the
  larger one of two, and writes its digits with a point before the last \<open>f\<close>, padding with
  zeros on the left up to \<open>f + 1\<close> digits. A number that is not finite or is at least
  \<open>10^21\<close> is rendered as by \<open>Number_toString\<close> below.
\<close>

definition toFixed_digits :: "nat \<Rightarrow> rat \<Rightarrow> string" where
  "toFixed_digits f x =
     (let n = nat \<lfloor>x * 10 ^ f + 1 / 2\<rfloor>;
          m = decimal n;
          m = (if f \<noteq> 0 \<and> length m \<le> f then replicate (f + 1 - length m) (CHR ''0'') @ m else m);
          k = length m
      in if f \<noteq> 0 then take (k - f) m @ ''.'' @ drop (k - f) m else m)"

subsection \<open>\<^verbatim>\<open>Number::toString\<close>\<close>

text \<open>
  The rendering of a number in a template literal: the shortest decimal digit string \<open>s\<close>
  (of \<open>k\<close> digits) and exponent \<open>n\<close> with \<open>s * 10^(n - k)\<close> rounding to the number, and among
  those the closest one; then plain digits, a decimal point or the exponent form,
  depending on \<open>n\<close>.
\<close>

function decimalExponent_up :: "rat \<Rightarrow> int" where
  "decimalExponent_up x = (if x < 10 then 1 else 1 + decimalExponent_up (x / 10))"
  by pat_completeness auto
termination
proof (relation "measure (\<lambda>x. nat \<lfloor>x\<rfloor>)")
  show "wf (measure (\<lambda>x::rat. nat \<lfloor>x\<rfloor>))" by simp
next
  fix x :: rat
  assume a: "\<not> x < 10"
  have "x / 10 \<le> x - 9" using a by simp
  then have "\<lfloor>x / 10\<rfloor> \<le> \<lfloor>x - 9\<rfloor>" by (rule floor_mono)
  then have "\<lfloor>x / 10\<rfloor> < \<lfloor>x\<rfloor>" by simp
  moreover have "0 < \<lfloor>x\<rfloor>" using a by (simp add: less_floor_iff not_less)
  ultimately show "(x / 10, x) \<in> measure (\<lambda>x. nat \<lfloor>x\<rfloor>)" by simp
qed

function decimalExponent_down :: "rat \<Rightarrow> int" where
  "decimalExponent_down x =
     (if x \<le> 0 \<or> 1 / 10 \<le> x then 0 else decimalExponent_down (x * 10) - 1)"
  by pat_completeness auto
termination
proof (relation "measure (\<lambda>x. nat \<lceil>1 / x\<rceil>)")
  show "wf (measure (\<lambda>x::rat. nat \<lceil>1 / x\<rceil>))" by simp
next
  fix x :: rat
  assume a: "\<not> (x \<le> 0 \<or> 1 / 10 \<le> x)"
  then have pos: "0 < x" and small: "x < 1 / 10" by simp_all
  have big: "10 < 1 / x" using pos small by (simp add: field_simps)
  have "1 / (x * 10) = (1 / x) / 10" by simp
  also have "\<dots> \<le> 1 / x - 9" using big by simp
  finally have "\<lceil>1 / (x * 10)\<rceil> \<le> \<lceil>1 / x - 9\<rceil>" by (rule ceiling_mono)
  then have "\<lceil>1 / (x * 10)\<rceil> < \<lceil>1 / x\<rceil>" by simp
  moreover have "0 < 1 / x" using pos by simp
  then have "0 < \<lceil>1 / x\<rceil>" by (simp only: less_ceiling_iff of_int_0)
  ultimately show "(x * 10, x) \<in> measure (\<lambda>x. nat \<lceil>1 / x\<rceil>)" by simp
qed

definition decimalExponent :: "rat \<Rightarrow> int" where
  "decimalExponent x = (if 1 \<le> x then decimalExponent_up x else decimalExponent_down x)"

definition roundTrips :: "rat \<Rightarrow> int \<Rightarrow> int \<Rightarrow> bool" where
  "roundTrips x s e = (toDouble (of_int s * pow10 e) = Finite x)"

function shortestDigits :: "nat \<Rightarrow> int \<Rightarrow> rat \<Rightarrow> int" where
  "shortestDigits k n x =
     (let e = n - int k;
          c = roundTiesToEven (x / pow10 e);
          c' = (if of_int c \<le> x / pow10 e then c + 1 else c - 1)
      in if roundTrips x c e \<or> 17 \<le> k then c
         else if roundTrips x c' e then c'
         else shortestDigits (k + 1) n x)"
  by pat_completeness auto
termination
  by (relation "measure (\<lambda>(k, n, x). 17 - k)") auto

definition Number_toString :: "number \<Rightarrow> string" where
  "Number_toString v =
     (case v of
        NaN \<Rightarrow> ''NaN''
      | Infinity \<Rightarrow> ''Infinity''
      | Finite x \<Rightarrow>
          if x = 0 then ''0''
          else
            let n0 = decimalExponent x;
                c = shortestDigits 1 n0 x;
                ds = (if c = 10 then ''1'' else decimal (nat c));
                n = (if c = 10 then n0 + 1 else n0);
                k = int (length ds)
            in if k \<le> n \<and> n \<le> 21 then ds @ replicate (nat (n - k)) (CHR ''0'')
               else if 0 < n \<and> n \<le> 21 then take (nat n) ds @ ''.'' @ drop (nat n) ds
               else if - 6 < n \<and> n \<le> 0 then ''0.'' @ replicate (nat (- n)) (CHR ''0'') @ ds
               else
                 let ex = (if n - 1 < 0 then ''-'' else ''+'') @ decimal (nat \<bar>n - 1\<bar>)
                 in if k = 1 then ds @ ''e'' @ ex
                    else take 1 ds @ ''.'' @ drop 1 ds @ ''e'' @ ex)"

text \<open>\<^verbatim>\<open>x.toFixed(f)\<close> on a number.\<close>

definition toFixed :: "nat \<Rightarrow> number \<Rightarrow> string" where
  "toFixed f v =
     (case v of
        Finite x \<Rightarrow> if 10 ^ 21 \<le> x then Number_toString v else toFixed_digits f x
      | _ \<Rightarrow> Number_toString v)"

section \<open>The page as the widget sees it\<close>

text \<open>
  \<^verbatim>\<open>AudioFileHandler\<close> holds references to seven DOM elements and two configuration
  values. The state of the model is the part of those elements that the handlers read or
  write, together with the list of network requests issued so far (oldest first), which
  stands for the calls of \<^verbatim>\<open>fetch\<close>. Strings are lists of characters; a value that a
  template literal interpolates is modelled by the string it is converted to.
  \<^verbatim>\<open>console.error\<close> output is not modelled. The markup assigned to \<^verbatim>\<open>innerHTML\<close> is kept
  as the assigned string: the browser's parsing and re-serialisation of it are not modelled.
\<close>

record selectedFile =
  file_name :: string
  file_type :: string
  file_size :: nat

datatype request =
  Request (req_method: string) (req_url: string)
    (req_headers: "(string \<times> string) list") (req_formData: "(string \<times> selectedFile) list")

record widget =
  fileInput_files :: "selectedFile list"
  fileInput_disabled :: bool
  uploadButton_disabled :: bool
  statusIndicator_textContent :: string
  resultsBox_innerHTML :: string
  progressSection_display :: string
  progressFill_width :: string
  progressText_textContent :: string
  requests :: "request list"

text \<open>The configuration set by the constructor, never assigned again.\<close>

definition apiEndpoint :: string where
  "apiEndpoint = ''/api/v1/audio/transcribe''"

definition maxFileSize :: nat where
  "maxFileSize = 50 * 1024 * 1024"

subsection \<open>What the network answers\<close>

text \<open>
  A call of \<^verbatim>\<open>fetch\<close> either rejects with an error (of the given message) or resolves to
  a response with a status, a status text and a body. \<^verbatim>\<open>response.ok\<close> holds for the
  statuses 200 to 299.
\<close>

datatype 'b fetched = Rejected string | Resolved nat string 'b

definition response_ok :: "nat \<Rightarrow> bool" where
  "response_ok status = (200 \<le> status \<and> status \<le> 299)"

text \<open>
  The object that \<^verbatim>\<open>response.json()\<close> yields, as \<^verbatim>\<open>displayResults\<close> reads it: the
  truthiness of \<^verbatim>\<open>success\<close> and the strings that \<^verbatim>\<open>text\<close>, \<^verbatim>\<open>processing_time\<close> and
  \<^verbatim>\<open>error\<close> are interpolated as (a number as by \<open>Number_toString\<close>, an absent field as
  \<^verbatim>\<open>undefined\<close>). A body is \<open>Unreadable\<close> when reading it throws before anything is
  displayed: the body is not JSON, or it is the JSON value \<^verbatim>\<open>null\<close>.
\<close>

record transcriptionResult =
  result_success :: bool
  result_text :: string
  result_processing_time :: string
  result_error :: string

datatype response_body = Unreadable string | Readable transcriptionResult

datatype js_error = Error (message: string)

record progressEvent =
  loaded :: nat
  total :: nat

section \<open>The handlers\<close>

subsection \<open>\<^verbatim>\<open>checkAPIConnection\<close>\<close>

text \<open>
  The health request is issued by the constructor; the function resumes with the outcome.
  A response that is not \<^verbatim>\<open>ok\<close> throws inside the \<^verbatim>\<open>try\<close> block and so takes the
  \<^verbatim>\<open>catch\<close> branch, as a rejection does.
\<close>

definition checkAPIConnection :: "'b fetched \<Rightarrow> widget \<Rightarrow> widget" where
  "checkAPIConnection outcome s =
     (let s1 = s\<lparr>requests := requests s @ [Request ''GET'' ''/api/v1/health'' [] []]\<rparr>;
          catch = s1\<lparr>statusIndicator_textContent :=
                       ''Error: Cannot connect to transcription service'',
                     fileInput_disabled := True\<rparr>
      in case outcome of
           Rejected msg \<Rightarrow> catch
         | Resolved status statusText body \<Rightarrow>
             if response_ok status
             then s1\<lparr>statusIndicator_textContent := ''Ready to process audio files'',
                     fileInput_disabled := False\<rparr>
             else catch)"

subsection \<open>\<^verbatim>\<open>handleFileSelection\<close>\<close>

definition handleFileSelection :: "widget \<Rightarrow> widget" where
  "handleFileSelection s =
     (case fileInput_files s of
        [] \<Rightarrow> s
      | file # _ \<Rightarrow>
          if file_type file \<noteq> ''audio/wav''
          then s\<lparr>statusIndicator_textContent := ''Error: Please select a WAV file'',
                  uploadButton_disabled := True\<rparr>
          else if file_size file > maxFileSize
          then s\<lparr>statusIndicator_textContent := ''Error: File size exceeds 50MB limit'',
                  uploadButton_disabled := True\<rparr>
          else s\<lparr>uploadButton_disabled := False,
                  statusIndicator_textContent :=
                    ''Selected: '' @ file_name file @ '' (''
                    @ toFixed 2 (js_divide (js_divide (Number_of_nat (file_size file))
                                                      (Finite 1024)) (Finite 1024))
                    @ ''MB)''\<rparr>)"

subsection \<open>\<^verbatim>\<open>updateProgress\<close> and the progress callback\<close>

definition updateProgress :: "number \<Rightarrow> widget \<Rightarrow> widget" where
  "updateProgress percent s =
     s\<lparr>progressFill_width := Number_toString percent @ ''%'',
       progressText_textContent := ''Uploading: '' @ Number_toString (Math_round percent) @ ''%''\<rparr>"

text \<open>The arrow function passed to \<^verbatim>\<open>fetch\<close> as \<^verbatim>\<open>onUploadProgress\<close>.\<close>

definition onUploadProgress :: "progressEvent \<Rightarrow> widget \<Rightarrow> widget" where
  "onUploadProgress progressEvent s =
     (let percentComplete =
            js_multiply (js_divide (Number_of_nat (loaded progressEvent))
                                   (Number_of_nat (total progressEvent))) (Finite 100)
      in updateProgress percentComplete s)"

subsection \<open>\<^verbatim>\<open>displayResults\<close>\<close>

text \<open>
  The two elements that \<^verbatim>\<open>displayResults\<close> writes, without the white space of the
  template literal around them.
\<close>

definition errorEntry :: "string \<Rightarrow> string \<Rightarrow> string" where
  \<open>errorEntry timestamp err =
     ''<div class="transcription-result error">\<newline>                    <p><strong>Error at ''
     @ timestamp @ '':</strong></p>\<newline>                    <p>''
     @ err @ ''</p>\<newline>                </div>''\<close>

definition transcriptionEntry :: "string \<Rightarrow> string \<Rightarrow> string \<Rightarrow> string \<Rightarrow> string" where
  \<open>transcriptionEntry timestamp text processing_time name =
     ''<div class="transcription-result">\<newline>                <p><strong>Transcription Result (''
     @ timestamp @ ''):</strong></p>\<newline>                <p>''
     @ text @ ''</p>\<newline>                <p><strong>Processing Time:</strong> ''
     @ processing_time @ ''s</p>\<newline>                <p><strong>File:</strong> ''
     @ name @ ''</p>\<newline>            </div>''\<close>

text \<open>
  \<open>timestamp\<close> is the value of \<^verbatim>\<open>new Date().toLocaleTimeString()\<close>. On a successful
  result the template reads \<^verbatim>\<open>this.fileInput.files[0].name\<close>, which throws a
  \<^verbatim>\<open>TypeError\<close> when no file is selected, before \<^verbatim>\<open>innerHTML\<close> is assigned.
\<close>

definition undefined_name :: string where
  "undefined_name = ''Cannot read properties of undefined (reading 'name')''"

definition displayResults :: "string \<Rightarrow> transcriptionResult \<Rightarrow> widget \<Rightarrow> js_error + widget" where
  "displayResults timestamp result s =
     (if \<not> result_success result
      then Inr (s\<lparr>resultsBox_innerHTML :=
                    ''\<newline>                '' @ errorEntry timestamp (result_error result)
                    @ ''\<newline>                '' @ resultsBox_innerHTML s
                    @ ''\<newline>            ''\<rparr>)
      else case fileInput_files s of
             [] \<Rightarrow> Inl (Error undefined_name)
           | file # _ \<Rightarrow>
               Inr (s\<lparr>resultsBox_innerHTML :=
                        ''\<newline>            ''
                        @ transcriptionEntry timestamp (result_text result)
                            (result_processing_time result) (file_name file)
                        @ ''\<newline>            '' @ resultsBox_innerHTML s
                        @ ''\<newline>        '',
                      statusIndicator_textContent := ''Transcription complete''\<rparr>))"

subsection \<open>\<^verbatim>\<open>handleUpload\<close>\<close>

text \<open>
  \<open>handleUpload timestamp progress outcome\<close> is one run of the handler from the click to
  the end of its \<^verbatim>\<open>finally\<close> block: \<open>outcome\<close> is what the request settles to and
  \<open>progress\<close> the progress events delivered to the callback while the request is in
  flight. (\<^verbatim>\<open>onUploadProgress\<close> is not an option of the standard \<^verbatim>\<open>fetch\<close>, which
  ignores it and delivers none.) Nothing else runs in between: both controls are disabled
  for the duration.
\<close>

definition handleUpload_catch :: "string \<Rightarrow> js_error \<Rightarrow> widget \<Rightarrow> widget" where
  "handleUpload_catch timestamp error s =
     (let s1 = s\<lparr>statusIndicator_textContent := ''Error: '' @ message error\<rparr>
      in case displayResults timestamp
                \<lparr>result_success = False, result_text = ''undefined'',
                 result_processing_time = ''undefined'', result_error = message error\<rparr> s1 of
           Inr s2 \<Rightarrow> s2
         | Inl _ \<Rightarrow> s1)"

definition handleUpload_finally :: "widget \<Rightarrow> widget" where
  "handleUpload_finally s =
     s\<lparr>progressSection_display := ''none'',
       uploadButton_disabled := False,
       fileInput_disabled := False,
       fileInput_files := []\<rparr>"

definition handleUpload ::
  "string \<Rightarrow> progressEvent list \<Rightarrow> response_body fetched \<Rightarrow> widget \<Rightarrow> widget" where
  "handleUpload timestamp progress outcome s =
     (case fileInput_files s of
        [] \<Rightarrow> s
      | file # _ \<Rightarrow>
          let s1 = s\<lparr>progressSection_display := ''block'',
                     uploadButton_disabled := True,
                     fileInput_disabled := True,
                     statusIndicator_textContent := ''Uploading and processing...''\<rparr>;
              s2 = s1\<lparr>requests := requests s1 @
                     [Request ''POST'' apiEndpoint [(''Accept'', ''application/json'')]
                        [(''audio'', file)]]\<rparr>;
              s3 = fold onUploadProgress progress s2;
              tried =
                (case outcome of
                   Rejected msg \<Rightarrow> Inl (Error msg)
                 | Resolved status statusText body \<Rightarrow>
                     if \<not> response_ok status
                     then Inl (Error (''Upload failed: '' @ decimal status @ '' '' @ statusText))
                     else (case body of
                             Unreadable msg \<Rightarrow> Inl (Error msg)
                           | Readable result \<Rightarrow> displayResults timestamp result s3));
              s4 = (case tried of
                      Inr s' \<Rightarrow> s'
                    | Inl error \<Rightarrow> handleUpload_catch timestamp error s3)
          in handleUpload_finally s4)"

subsection \<open>\<^verbatim>\<open>formatFileSize\<close>\<close>






section \<open>Events\<close>

text \<open>
  \<^verbatim>\<open>setupEventListeners\<close> registers \<^verbatim>\<open>handleFileSelection\<close> for the \<^verbatim>\<open>change\<close> event of
  the file input and \<^verbatim>\<open>handleUpload\<close> for the \<^verbatim>\<open>click\<close> event of the upload button. The
  browser delivers neither event for a disabled control: the user cannot pick files
  through a disabled file input and cannot click a disabled button. \<open>Change files\<close> is the
  user replacing the selection by \<open>files\<close> (none, when a selection is cancelled).
\<close>

datatype event =
  Change "selectedFile list"
| Click string "progressEvent list" "response_body fetched"

fun fire :: "event \<Rightarrow> widget \<Rightarrow> widget" where
  "fire (Change files) s =
     (if fileInput_disabled s then s else handleFileSelection (s\<lparr>fileInput_files := files\<rparr>))"
| "fire (Click timestamp progress outcome) s =
     (if uploadButton_disabled s then s else handleUpload timestamp progress outcome s)"

definition run :: "event list \<Rightarrow> widget \<Rightarrow> widget" where
  "run events s = fold fire events s"

text \<open>
  The life of a page: the constructor issues the health request, the user may act on the
  page while it is pending (\<open>before\<close>), the request settles to \<open>health\<close> and
  \<^verbatim>\<open>checkAPIConnection\<close> resumes, and further events follow (\<open>after\<close>). The request is
  issued once, so no second health outcome arrives without a reload.
\<close>

definition page :: "widget \<Rightarrow> event list \<Rightarrow> 'b fetched \<Rightarrow> event list \<Rightarrow> widget" where
  "page s0 before health after = run after (checkAPIConnection health (run before s0))"

text \<open>
  The guard that the selection handler keeps up: an invalid first file (wrong media type,
  or larger than the limit) comes with a disabled upload button.
\<close>

definition submitGuarded :: "widget \<Rightarrow> bool" where
  "submitGuarded s =
     (case fileInput_files s of
        [] \<Rightarrow> True
      | file # rest \<Rightarrow>
          (file_type file \<noteq> ''audio/wav'' \<or> 50 * 1024 * 1024 < file_size file)
          \<longrightarrow> uploadButton_disabled s)"

subsection \<open>A page and files to run the handlers on\<close>

text \<open>
  Modelled from the spec: the markup of the page is not part of the sources. The spec
  (section 4.2) has the widget start in a disabled initial state, with no file selected
  and submission disabled. The texts and styles the page starts with are left empty.
\<close>

definition initialPage :: widget where
  "initialPage =
     \<lparr>fileInput_files = [], fileInput_disabled = True, uploadButton_disabled = True,
      statusIndicator_textContent = [], resultsBox_innerHTML = [],
      progressSection_display = [], progressFill_width = [],
      progressText_textContent = [], requests = []\<rparr>"

definition wav :: "string \<Rightarrow> nat \<Rightarrow> selectedFile" where
  "wav name bytes = \<lparr>file_name = name, file_type = ''audio/wav'', file_size = bytes\<rparr>"

text \<open>The page after a successful health check and the selection of one file.\<close>

definition healthy :: "unit fetched" where
  "healthy = Resolved 200 ''OK'' ()"

definition pageWith :: "selectedFile \<Rightarrow> widget" where
  "pageWith file = page initialPage [] healthy [Change [file]]"

definition hello :: transcriptionResult where
  "hello = \<lparr>result_success = True, result_text = ''hello'',
            result_processing_time = ''1.2'', result_error = ''undefined''\<rparr>"

section \<open>Properties of the number model\<close>

lemma pow2_powi: "pow2 e = 2 powi e"
  by (simp add: pow2_def power_int_def field_simps)

lemma pow2_pos: "0 < pow2 e"
  by (simp add: pow2_powi)

text \<open>The binary exponent found by \<open>ilog2\<close> is the right one: \<open>2^e \<le> x < 2^(e+1)\<close>.\<close>

lemma ilog2_le:
  assumes "0 < x"
  shows "pow2 (ilog2 x) \<le> x"
proof -
  obtain p q where pq: "quotient_of x = (p, q)" by (cases "quotient_of x")
  then have q: "0 < q" and x: "x = of_int p / of_int q"
    by (simp_all add: quotient_of_denom_pos quotient_of_div)
  from assms x q have p: "0 < p" by (simp add: zero_less_divide_iff)
  have bp: "2 ^ nat (bitlen p - 1) \<le> p" using bitlen_bounds [OF p] by simp
  have bq: "q < 2 ^ nat (bitlen q)" using bitlen_bounds [OF q] by simp
  have bp1: "1 \<le> bitlen p" using p bitlen_eq_zero_iff [of p] bitlen_nonneg [of p] by linarith
  have bq0: "0 \<le> bitlen q" by (rule bitlen_nonneg)
  have "pow2 (bitlen p - bitlen q - 1) = 2 powi (bitlen p - 1) / 2 powi (bitlen q)"
    by (simp add: pow2_powi power_int_diff)
  also have "\<dots> = of_int (2 ^ nat (bitlen p - 1)) / of_int (2 ^ nat (bitlen q))"
    using bp1 bq0 by (simp add: power_int_def)
  also have "\<dots> \<le> of_int p / of_int q"
    using bp bq p q
    by (intro frac_le) (simp_all del: of_int_power add: less_imp_le)
  finally have low: "pow2 (bitlen p - bitlen q - 1) \<le> x" using x by simp
  show ?thesis using pq low by (simp add: ilog2_def Let_def)
qed

lemma ilog2_less:
  assumes "0 < x"
  shows "x < pow2 (ilog2 x + 1)"
proof -
  obtain p q where pq: "quotient_of x = (p, q)" by (cases "quotient_of x")
  then have q: "0 < q" and x: "x = of_int p / of_int q"
    by (simp_all add: quotient_of_denom_pos quotient_of_div)
  from assms x q have p: "0 < p" by (simp add: zero_less_divide_iff)
  have bp: "p < 2 ^ nat (bitlen p)" using bitlen_bounds [OF p] by simp
  have bq: "2 ^ nat (bitlen q - 1) \<le> q" using bitlen_bounds [OF q] by simp
  have bq1: "1 \<le> bitlen q" using q bitlen_eq_zero_iff [of q] bitlen_nonneg [of q] by linarith
  have bp0: "0 \<le> bitlen p" by (rule bitlen_nonneg)
  have "of_int p / of_int q < (of_int (2 ^ nat (bitlen p)) / of_int (2 ^ nat (bitlen q - 1)) :: rat)"
    using bp bq p q
    by (intro frac_less) (simp_all del: of_int_power)
  also have "\<dots> = 2 powi (bitlen p) / 2 powi (bitlen q - 1)"
    using bq1 bp0 by (simp add: power_int_def)
  also have "\<dots> = 2 powi (bitlen p - (bitlen q - 1))"
    by (subst power_int_diff) simp_all
  also have "\<dots> = pow2 (bitlen p - bitlen q + 1)"
    by (simp add: pow2_powi algebra_simps)
  finally have high: "x < pow2 (bitlen p - bitlen q + 1)" using x by simp
  show ?thesis using pq high by (auto simp add: ilog2_def Let_def not_le)
qed

lemma roundTiesToEven_of_int: "roundTiesToEven (of_int m) = m"
  by (simp add: roundTiesToEven_def)

text \<open>
  A byte count below \<open>2^53\<close> divided by a power of two is a binary64 number: the
  rounding leaves it as it is. So \<^verbatim>\<open>file.size / 1024 / 1024\<close> is computed exactly.
\<close>

lemma toDouble_dyadic:
  assumes n: "n < 2 ^ 53" and k: "k \<le> 1074"
  shows "toDouble (of_nat n / 2 ^ k) = Finite (of_nat n / 2 ^ k)"
proof (cases "n = 0")
  case True
  then show ?thesis by (simp add: toDouble_def)
next
  case False
  define x :: rat where "x = of_nat n / 2 ^ k"
  have xpos: "0 < x" using False by (simp add: x_def)
  define E where "E = max (ilog2 x) (- 1022) - 52"
  have "pow2 (ilog2 x) \<le> x" by (rule ilog2_le [OF xpos])
  also have "x < 2 ^ 53 / 2 ^ k" using n unfolding x_def
    by (intro divide_strict_right_mono) simp_all
  also have "\<dots> = pow2 (53 - int k)" by (simp add: pow2_powi power_int_diff)
  finally have lt: "pow2 (ilog2 x) < pow2 (53 - int k)" .
  have "ilog2 x < 53 - int k"
  proof (rule ccontr)
    assume "\<not> ilog2 x < 53 - int k"
    then have "53 - int k \<le> ilog2 x" by simp
    then have "(2::rat) powi (53 - int k) \<le> 2 powi (ilog2 x)"
      by (rule power_int_increasing) simp
    with lt show False by (simp add: pow2_powi)
  qed
  then have E: "E \<le> - int k" using k by (simp add: E_def)
  define j where "j = nat (- int k - E)"
  have "x / pow2 E = of_nat n * 2 powi (- int k - E)"
    by (simp add: x_def pow2_powi power_int_diff power_int_minus field_simps)
  also have "\<dots> = of_int (int n * 2 ^ j)" using E by (simp add: j_def power_int_def)
  finally have q: "x / pow2 E = of_int (int n * 2 ^ j)" .
  have undo: "of_int (int n * 2 ^ j) * pow2 E = x" using q pow2_pos [of E]
    by (simp add: field_simps)
  have small: "\<not> 1024 \<le> ilog2 x" using \<open>ilog2 x < 53 - int k\<close> by simp
  have "toDouble x = Finite x"
    using xpos small
    by (simp add: toDouble_def Let_def E_def [symmetric] q roundTiesToEven_of_int undo
        del: of_int_mult of_int_power)
  then show ?thesis by (simp add: x_def)
qed


lemma floor_rat_numeral [simp]:
  "\<lfloor>numeral a / numeral b :: rat\<rfloor> = numeral a div numeral b"
  using floor_divide_of_int_eq [of "numeral a" "numeral b", where ?'a = rat] by simp

lemma Number_of_nat_exact: "n < 2 ^ 53 \<Longrightarrow> Number_of_nat n = Finite (of_nat n)"
  using toDouble_dyadic [of n 0] by (simp add: Number_of_nat_def)

lemma size_in_megabytes:
  assumes "n < 2 ^ 53"
  shows "js_divide (js_divide (Number_of_nat n) (Finite 1024)) (Finite 1024)
           = Finite (of_nat n / (1024 * 1024))"
proof -
  have a: "toDouble (of_nat n / 1024) = Finite (of_nat n / 1024)"
    using toDouble_dyadic [OF assms, of 10] by simp
  have b: "toDouble (of_nat n / 1024 / 1024) = Finite (of_nat n / 1024 / 1024)"
    using toDouble_dyadic [OF assms, of 20] by simp
  show ?thesis
    using a b by (simp add: Number_of_nat_exact [OF assms])
qed

subsection \<open>Decimal renderings\<close>

lemma decimal_small: "h < 10 \<Longrightarrow> decimal h = [digit h]"
  by (simp add: decimal.simps)

lemma decimal_step: "10 \<le> h \<Longrightarrow> decimal h = decimal (h div 10) @ [digit (h mod 10)]"
  by (subst decimal.simps) simp

lemma length_decimal_pos: "0 < length (decimal h)"
  by (subst decimal.simps) simp

lemma toFixed_digits_2:
  "toFixed_digits 2 x =
     (let h = nat \<lfloor>x * 100 + 1 / 2\<rfloor>
      in decimal (h div 100) @ ''.'' @ [digit (h div 10 mod 10), digit (h mod 10)])"
proof -
  define h where "h = nat \<lfloor>x * 100 + 1 / 2\<rfloor>"
  define m where "m = (if length (decimal h) \<le> 2
                        then replicate (3 - length (decimal h)) (CHR ''0'') @ decimal h
                        else decimal h)"
  have tf: "toFixed_digits 2 x = take (length m - 2) m @ ''.'' @ drop (length m - 2) m"
    by (simp add: toFixed_digits_def Let_def m_def h_def)
  consider "h < 10" | "10 \<le> h" "h < 100" | "100 \<le> h" by linarith
  then have "m = decimal (h div 100) @ [digit (h div 10 mod 10), digit (h mod 10)]"
  proof cases
    case 1
    then show ?thesis by (simp add: m_def decimal_small digit_def numeral_3_eq_3)
  next
    case 2
    then have "h div 10 < 10" by simp
    with 2 show ?thesis
      by (simp add: m_def decimal_step decimal_small numeral_3_eq_3 digit_def)
  next
    case 3
    then have "10 \<le> h div 10" by simp
    moreover have "h div 10 div 10 = h div 100" by (simp add: div_mult2_eq)
    ultimately have eq: "decimal h = decimal (h div 100) @ [digit (h div 10 mod 10), digit (h mod 10)]"
      using 3 by (simp add: decimal_step)
    show ?thesis unfolding m_def eq using length_decimal_pos [of "h div 100"] by simp
  qed
  then show ?thesis
    unfolding tf by (simp add: h_def [symmetric] Let_def)
qed

lemma nearest_hundredth:
  "\<bar>of_int \<lfloor>x * 100 + 1 / 2\<rfloor> / 100 - x\<bar> \<le> (1 / 200 :: rat)"
proof -
  define f :: rat where "f = of_int \<lfloor>x * 100 + 1 / 2\<rfloor>"
  have "f \<le> x * 100 + 1 / 2" unfolding f_def by (rule of_int_floor_le)
  moreover have "x * 100 + 1 / 2 < f + 1" unfolding f_def by linarith
  ultimately have "f / 100 - x \<le> 1 / 200" and "- (f / 100 - x) \<le> 1 / 200" by linarith+
  then have "\<bar>f / 100 - x\<bar> \<le> 1 / 200" by (simp only: abs_le_iff)
  then show ?thesis by (simp add: f_def)
qed




subsection \<open>Some numbers, evaluated\<close>












lemma megabytes_1048576: "toFixed_digits 2 (of_nat 1048576 / (1024 * 1024)) = ''1.00''"
  by (simp add: toFixed_digits_2 Let_def decimal_small digit_def)




text \<open>The processing time 1.2 of a result is interpolated as \<^verbatim>\<open>1.2\<close>.\<close>

lemma toString_1_2: "Number_toString (toDouble (12 / 10)) = ''1.2''"
  by code_simp









section \<open>Properties of the handlers\<close>

subsection \<open>What each handler leaves alone\<close>

lemma updateProgress_fields [simp]:
  "fileInput_files (updateProgress p s) = fileInput_files s"
  "fileInput_disabled (updateProgress p s) = fileInput_disabled s"
  "uploadButton_disabled (updateProgress p s) = uploadButton_disabled s"
  "statusIndicator_textContent (updateProgress p s) = statusIndicator_textContent s"
  "resultsBox_innerHTML (updateProgress p s) = resultsBox_innerHTML s"
  "progressSection_display (updateProgress p s) = progressSection_display s"
  "requests (updateProgress p s) = requests s"
  by (simp_all add: updateProgress_def)

lemma progress_fields [simp]:
  "fileInput_files (fold onUploadProgress es s) = fileInput_files s"
  "fileInput_disabled (fold onUploadProgress es s) = fileInput_disabled s"
  "uploadButton_disabled (fold onUploadProgress es s) = uploadButton_disabled s"
  "statusIndicator_textContent (fold onUploadProgress es s) = statusIndicator_textContent s"
  "resultsBox_innerHTML (fold onUploadProgress es s) = resultsBox_innerHTML s"
  "progressSection_display (fold onUploadProgress es s) = progressSection_display s"
  "requests (fold onUploadProgress es s) = requests s"
  by (induction es arbitrary: s; simp add: onUploadProgress_def Let_def)+

lemma displayResults_failure:
  "\<not> result_success r \<Longrightarrow>
   displayResults t r s = Inr (s\<lparr>resultsBox_innerHTML :=
       ''\<newline>                '' @ errorEntry t (result_error r)
       @ ''\<newline>                '' @ resultsBox_innerHTML s @ ''\<newline>            ''\<rparr>)"
  by (simp add: displayResults_def)

lemma handleUpload_catch_eq:
  "handleUpload_catch t e s =
     s\<lparr>statusIndicator_textContent := ''Error: '' @ message e,
       resultsBox_innerHTML :=
         ''\<newline>                '' @ errorEntry t (message e)
         @ ''\<newline>                '' @ resultsBox_innerHTML s @ ''\<newline>            ''\<rparr>"
  by (simp add: handleUpload_catch_def displayResults_failure Let_def)

subsection \<open>Substrings of the markup\<close>

lemma sublist_skip: "sublist x ys \<Longrightarrow> sublist x (a @ ys)"
  by (metis sublist_append_leftI sublist_order.order_trans)

lemma sublist_here: "sublist x (x @ b)"
  by (rule sublist_append_rightI)

lemma sublist_ConsI: "sublist x ys \<Longrightarrow> sublist x (c # ys)"
  using sublist_skip [of x ys "[c]"] by simp

lemma sublist_grow: "sublist x e \<Longrightarrow> sublist x (e @ b)"
  by (metis sublist_append_rightI sublist_order.order_trans)

lemma sublist_in_transcriptionEntry:
  "sublist t (transcriptionEntry ts t p n)"
  "sublist p (transcriptionEntry ts t p n)"
  "sublist n (transcriptionEntry ts t p n)"
  unfolding transcriptionEntry_def
  by (rule sublist_skip sublist_here)+

lemma sublist_in_errorEntry: "sublist m (errorEntry ts m)"
  unfolding errorEntry_def
  by (rule sublist_skip sublist_here)+

subsection \<open>The example page\<close>

lemma pageWith_fields [simp]:
  "fileInput_files (pageWith file) = [file]"
  "resultsBox_innerHTML (pageWith file) = []"
  "\<not> fileInput_disabled (pageWith file)"
  by (simp_all add: pageWith_def page_def run_def healthy_def checkAPIConnection_def
      response_ok_def initialPage_def handleFileSelection_def Let_def)



subsection \<open>Accepted files\<close>

lemma handleFileSelection_valid:
  assumes "fileInput_files s = file # rest"
    and "file_type file = ''audio/wav''"
    and "file_size file \<le> 50 * 1024 * 1024"
  shows "handleFileSelection s =
           s\<lparr>uploadButton_disabled := False,
             statusIndicator_textContent :=
               ''Selected: '' @ file_name file @ '' (''
               @ toFixed_digits 2 (of_nat (file_size file) / (1024 * 1024)) @ ''MB)''\<rparr>"
proof -
  have small: "file_size file < 2 ^ 53" using assms(3) by simp
  have "of_nat (file_size file) \<le> (50 * 1024 * 1024 :: rat)"
    using assms(3) by (metis of_nat_le_iff of_nat_numeral of_nat_mult)
  then have "\<not> (10 ^ 21 \<le> (of_nat (file_size file) / (1024 * 1024) :: rat))"
    by (simp add: field_simps)
  then show ?thesis
    using assms
    by (simp add: handleFileSelection_def maxFileSize_def size_in_megabytes [OF small] toFixed_def)
qed

lemma pageWith_status:
  assumes "file_type file = ''audio/wav''" and "file_size file \<le> 50 * 1024 * 1024"
  shows "statusIndicator_textContent (pageWith file) =
           ''Selected: '' @ file_name file @ '' (''
           @ toFixed_digits 2 (of_nat (file_size file) / (1024 * 1024)) @ ''MB)''"
    and "\<not> uploadButton_disabled (pageWith file)"
  using assms
  by (simp_all add: pageWith_def page_def run_def healthy_def checkAPIConnection_def
      response_ok_def initialPage_def Let_def handleFileSelection_valid [where rest = "[]"])



subsection \<open>The utility \<^verbatim>\<open>formatFileSize\<close>\<close>



subsection \<open>Events that change nothing\<close>

lemma fire_disabled:
  "fileInput_disabled s \<Longrightarrow> fileInput_files s = [] \<Longrightarrow> fire e s = s"
  by (cases e) (simp_all add: handleUpload_def)

lemma run_disabled:
  "fileInput_disabled s \<Longrightarrow> fileInput_files s = [] \<Longrightarrow> run events s = s"
  by (induction events) (simp_all add: run_def fire_disabled)

lemma checkAPIConnection_fields [simp]:
  "fileInput_files (checkAPIConnection health s) = fileInput_files s"
  "uploadButton_disabled (checkAPIConnection health s) = uploadButton_disabled s"
  by (simp_all add: checkAPIConnection_def Let_def split: fetched.splits)

lemma checkAPIConnection_failed:
  assumes "health = Rejected msg \<or> (\<exists>status statusText body.
             health = Resolved status statusText body \<and> \<not> response_ok status)"
  shows "fileInput_disabled (checkAPIConnection health s)"
    and "statusIndicator_textContent (checkAPIConnection health s) =
           ''Error: Cannot connect to transcription service''"
  using assms by (auto simp add: checkAPIConnection_def Let_def)

text \<open>On a page that starts with the file input disabled, no file is selected while the
  health request is pending.\<close>

lemma no_file_while_pending:
  "fileInput_disabled s0 \<Longrightarrow> fileInput_files s0 = [] \<Longrightarrow> fileInput_files (run before s0) = []"
  by (simp add: run_disabled)

subsection \<open>The guard of the upload button\<close>

lemma handleFileSelection_guarded: "submitGuarded (handleFileSelection s)"
  by (auto simp add: submitGuarded_def handleFileSelection_def maxFileSize_def
      split: list.splits)

lemma handleUpload_guarded: "submitGuarded s \<Longrightarrow> submitGuarded (handleUpload t p out s)"
  by (cases "fileInput_files s")
     (simp_all add: submitGuarded_def handleUpload_def handleUpload_finally_def Let_def)

lemma fire_guarded: "submitGuarded s \<Longrightarrow> submitGuarded (fire e s)"
  by (cases e) (simp_all add: handleFileSelection_guarded handleUpload_guarded)

lemma run_guarded: "submitGuarded s \<Longrightarrow> submitGuarded (run events s)"
  unfolding run_def by (induction events arbitrary: s) (simp_all add: fire_guarded)

lemma checkAPIConnection_guarded:
  "submitGuarded s \<Longrightarrow> submitGuarded (checkAPIConnection health s)"
  by (simp add: submitGuarded_def split: list.splits)

lemma page_guarded:
  "fileInput_files s0 = [] \<Longrightarrow> submitGuarded (page s0 before health after)"
  unfolding page_def
  by (intro run_guarded checkAPIConnection_guarded) (simp add: submitGuarded_def)

subsection \<open>What a selection made before the health check fails would undo\<close>

text \<open>
  The \<^verbatim>\<open>finally\<close> block of \<^verbatim>\<open>handleUpload\<close> enables the file input whatever the health
  check found. On a page whose file input starts enabled, a file picked while the health
  request is pending can be uploaded after the check has failed, and the upload enables
  the file input again.
\<close>

lemma upload_after_failed_check_enables_input:
  assumes "fileInput_files s \<noteq> []" and "\<not> uploadButton_disabled s"
  shows "\<not> fileInput_disabled
           (fire (Click timestamp progress outcome) (checkAPIConnection (Rejected msg) s))"
  using assms
  by (cases "fileInput_files s")
     (simp_all add: handleUpload_def handleUpload_finally_def Let_def)

section \<open>Uploading\<close>

text \<open>
  Claim C1. When a file is selected and the request resolves to a 2xx response whose body
  is a result with a true \<^verbatim>\<open>success\<close>, text \<open>t\<close> and processing time \<open>p\<close>, the results
  box afterwards starts with a new entry, put before its former content; the entry
  contains \<open>t\<close>, \<open>p\<close> and the name of the selected file; and the status reads
  \<^verbatim>\<open>Transcription complete\<close>.
\<close>

theorem handleUpload_shows_transcription:
  assumes "fileInput_files s = file # rest"
    and "response_ok status"
    and "result_success result"
    and "result_text result = t"
    and "result_processing_time result = p"
  shows "let s' = handleUpload timestamp progress (Resolved status statusText (Readable result)) s;
             entry = transcriptionEntry timestamp t p (file_name file)
         in resultsBox_innerHTML s' =
              ''\<newline>            '' @ entry @ ''\<newline>            ''
              @ resultsBox_innerHTML s @ ''\<newline>        '' \<and>
            sublist t entry \<and> sublist p entry \<and> sublist (file_name file) entry \<and>
            statusIndicator_textContent s' = ''Transcription complete''"
  using assms
  by (simp add: handleUpload_def handleUpload_finally_def displayResults_def Let_def
      sublist_in_transcriptionEntry)

theorem handleUpload_shows_transcription_witness:
  "fileInput_files (pageWith (wav ''test.wav'' 1048576)) = wav ''test.wav'' 1048576 # [] \<and>
   response_ok 200 \<and> result_success hello \<and>
   result_text hello = ''hello'' \<and> result_processing_time hello = ''1.2'' \<and>
   resultsBox_innerHTML
     (handleUpload ''10:15:00'' [] (Resolved 200 ''OK'' (Readable hello))
        (pageWith (wav ''test.wav'' 1048576))) =
     ''\<newline>            '' @ transcriptionEntry ''10:15:00'' ''hello'' ''1.2'' ''test.wav''
     @ ''\<newline>            \<newline>        '' \<and>
   sublist ''hello'' (transcriptionEntry ''10:15:00'' ''hello'' ''1.2'' ''test.wav'') \<and>
   sublist ''1.2'' (transcriptionEntry ''10:15:00'' ''hello'' ''1.2'' ''test.wav'') \<and>
   sublist ''test.wav'' (transcriptionEntry ''10:15:00'' ''hello'' ''1.2'' ''test.wav'') \<and>
   statusIndicator_textContent
     (handleUpload ''10:15:00'' [] (Resolved 200 ''OK'' (Readable hello))
        (pageWith (wav ''test.wav'' 1048576))) = ''Transcription complete''"
  using handleUpload_shows_transcription
    [of "pageWith (wav ''test.wav'' 1048576)" "wav ''test.wav'' 1048576" "[]" 200 hello
        "''hello''" "''1.2''" "''10:15:00''" "[]" "''OK''"]
  by (simp add: response_ok_def hello_def wav_def Let_def)

text \<open>
  Claim C2. When a file is selected and the request fails, either by rejecting with an
  error of message \<open>m\<close> or by resolving to a response whose status is not 2xx, for which
  the handler throws an error of message \<open>m = Upload failed: status statusText\<close>, the
  results box afterwards starts with a new error entry that contains \<open>m\<close>, and the status
  reads \<^verbatim>\<open>Error: \<close> followed by \<open>m\<close>. The page after a response that is not 2xx is the
  page after a rejection with that message.
\<close>

theorem handleUpload_shows_error:
  assumes "fileInput_files s = file # rest"
    and "outcome = Rejected m \<or>
         (\<exists>body. outcome = Resolved status statusText body) \<and> \<not> response_ok status \<and>
         m = ''Upload failed: '' @ decimal status @ '' '' @ statusText"
  shows "let s' = handleUpload timestamp progress outcome s
         in resultsBox_innerHTML s' =
              ''\<newline>                '' @ errorEntry timestamp m @ ''\<newline>                ''
              @ resultsBox_innerHTML s @ ''\<newline>            '' \<and>
            sublist m (errorEntry timestamp m) \<and>
            statusIndicator_textContent s' = ''Error: '' @ m \<and>
            prefix ''Error:'' (statusIndicator_textContent s') \<and>
            handleUpload timestamp progress (Rejected m) s = s'"
  using assms
  by (auto simp add: handleUpload_def handleUpload_finally_def handleUpload_catch_eq Let_def
      sublist_in_errorEntry)

theorem handleUpload_shows_error_witness:
  "fileInput_files (pageWith (wav ''test.wav'' 1048576)) = wav ''test.wav'' 1048576 # [] \<and>
   \<not> response_ok 500 \<and>
   ''Upload failed: '' @ decimal 500 @ '' '' @ ''Internal Server Error''
     = ''Upload failed: 500 Internal Server Error'' \<and>
   resultsBox_innerHTML
     (handleUpload ''10:15:00'' [] (Resolved 500 ''Internal Server Error'' (Unreadable []))
        (pageWith (wav ''test.wav'' 1048576))) =
     ''\<newline>                ''
     @ errorEntry ''10:15:00'' ''Upload failed: 500 Internal Server Error''
     @ ''\<newline>                \<newline>            '' \<and>
   statusIndicator_textContent
     (handleUpload ''10:15:00'' [] (Resolved 500 ''Internal Server Error'' (Unreadable []))
        (pageWith (wav ''test.wav'' 1048576))) =
     ''Error: Upload failed: 500 Internal Server Error''"
proof -
  have d: "decimal 500 = ''500''" by code_simp
  show ?thesis
    using handleUpload_shows_error
      [of "pageWith (wav ''test.wav'' 1048576)" "wav ''test.wav'' 1048576" "[]"
          "Resolved 500 ''Internal Server Error'' (Unreadable [])"
          "''Upload failed: 500 Internal Server Error''" 500 "''Internal Server Error''"
          "''10:15:00''" "[]"]
    by (simp add: response_ok_def d Let_def)
qed

text \<open>
  Claim C3. Whenever a file is selected, so that an upload takes place, and whatever the
  request settles to, after \<^verbatim>\<open>handleUpload\<close> the progress section is hidden, the file
  input and the upload button are enabled, and no file is selected.
\<close>

theorem handleUpload_always_cleans_up:
  assumes "fileInput_files s \<noteq> []"
  shows "progressSection_display (handleUpload timestamp progress outcome s) = ''none'' \<and>
         \<not> fileInput_disabled (handleUpload timestamp progress outcome s) \<and>
         \<not> uploadButton_disabled (handleUpload timestamp progress outcome s) \<and>
         fileInput_files (handleUpload timestamp progress outcome s) = []"
  using assms
  by (cases "fileInput_files s") (simp_all add: handleUpload_def handleUpload_finally_def Let_def)

theorem handleUpload_always_cleans_up_witness:
  "fileInput_files (pageWith (wav ''test.wav'' 1048576)) \<noteq> [] \<and>
   progressSection_display
     (handleUpload ''10:15:00'' [] (Rejected ''Failed to fetch'')
        (pageWith (wav ''test.wav'' 1048576))) = ''none'' \<and>
   \<not> fileInput_disabled
     (handleUpload ''10:15:00'' [] (Rejected ''Failed to fetch'')
        (pageWith (wav ''test.wav'' 1048576))) \<and>
   \<not> uploadButton_disabled
     (handleUpload ''10:15:00'' [] (Rejected ''Failed to fetch'')
        (pageWith (wav ''test.wav'' 1048576))) \<and>
   fileInput_files
     (handleUpload ''10:15:00'' [] (Rejected ''Failed to fetch'')
        (pageWith (wav ''test.wav'' 1048576))) = []"
  using handleUpload_always_cleans_up
    [of "pageWith (wav ''test.wav'' 1048576)" "''10:15:00''" "[]" "Rejected ''Failed to fetch''"]
  by simp

section \<open>The upload button and the selection\<close>

text \<open>
  Claim C4, as amended. Starting from a page with no file selected, in every page reached
  by events before and after the health check in which the selected file is invalid (its
  media type is not \<^verbatim>\<open>audio/wav\<close> or it is larger than \<open>50 * 1024 * 1024\<close> bytes), the
  upload button is disabled. With no file selected the button may be enabled; a click on
  it then changes nothing.
\<close>

theorem invalid_selection_keeps_submit_disabled:
  assumes "fileInput_files s0 = []"
  shows "(\<forall>file rest.
            fileInput_files (page s0 before health after) = file # rest \<and>
            (file_type file \<noteq> ''audio/wav'' \<or> 50 * 1024 * 1024 < file_size file)
            \<longrightarrow> uploadButton_disabled (page s0 before health after)) \<and>
         (fileInput_files (page s0 before health after) = []
            \<longrightarrow> (\<forall>timestamp progress outcome.
                  fire (Click timestamp progress outcome) (page s0 before health after)
                    = page s0 before health after))"
  using page_guarded [OF assms, of before health after]
  by (auto simp add: submitGuarded_def handleUpload_def)

theorem invalid_selection_keeps_submit_disabled_witness:
  "fileInput_files initialPage = [] \<and>
   fileInput_files (page initialPage [] healthy [Change [wav ''big.wav'' 52428801]])
     = wav ''big.wav'' 52428801 # [] \<and>
   50 * 1024 * 1024 < file_size (wav ''big.wav'' 52428801) \<and>
   uploadButton_disabled (page initialPage [] healthy [Change [wav ''big.wav'' 52428801]])"
proof -
  have a: "fileInput_files initialPage = []" by (simp add: initialPage_def)
  have b: "fileInput_files (page initialPage [] healthy [Change [wav ''big.wav'' 52428801]])
             = wav ''big.wav'' 52428801 # []"
    using pageWith_fields(1) [of "wav ''big.wav'' 52428801"] by (simp add: pageWith_def)
  have c: "50 * 1024 * 1024 < file_size (wav ''big.wav'' 52428801)" by (simp add: wav_def)
  from invalid_selection_keeps_submit_disabled
    [OF a, of "[]" healthy "[Change [wav ''big.wav'' 52428801]]"] b c
  have "uploadButton_disabled (page initialPage [] healthy [Change [wav ''big.wav'' 52428801]])"
    by blast
  with a b c show ?thesis by simp
qed

text \<open>
  Claim C4 as stated asks for a disabled upload button whenever no file is selected. After
  a completed upload the \<^verbatim>\<open>finally\<close> block has cleared the selection and enabled the
  button: no file is selected and the button is enabled.
\<close>

theorem submit_enabled_without_file_counterexample:
  "fileInput_files
     (page initialPage [] healthy
        [Change [wav ''test.wav'' 1048576],
         Click ''10:15:00'' [] (Resolved 200 ''OK'' (Readable hello))]) = [] \<and>
   \<not> uploadButton_disabled
     (page initialPage [] healthy
        [Change [wav ''test.wav'' 1048576],
         Click ''10:15:00'' [] (Resolved 200 ''OK'' (Readable hello))])"
proof -
  have t: "file_type (wav ''test.wav'' 1048576) = ''audio/wav''"
    and z: "file_size (wav ''test.wav'' 1048576) \<le> 50 * 1024 * 1024"
    by (simp_all add: wav_def)
  have "page initialPage [] healthy
          [Change [wav ''test.wav'' 1048576],
           Click ''10:15:00'' [] (Resolved 200 ''OK'' (Readable hello))]
        = handleUpload ''10:15:00'' [] (Resolved 200 ''OK'' (Readable hello))
            (pageWith (wav ''test.wav'' 1048576))"
    using pageWith_status(2) [OF t z]
    by (simp add: pageWith_def page_def run_def)
  then show ?thesis
    by (simp add: handleUpload_def handleUpload_finally_def Let_def)
qed

section \<open>Selecting a file\<close>

text \<open>
  Claim C5. When the first selected file does not have the media type \<^verbatim>\<open>audio/wav\<close>, or
  is larger than \<open>50 * 1024 * 1024\<close> bytes, \<^verbatim>\<open>handleFileSelection\<close> disables the upload
  button and shows the matching message: the type error when the type is wrong (the type
  is checked first), the size error otherwise. It issues no request, and a click on the
  upload button afterwards is not delivered, so none follows either.
\<close>

theorem handleFileSelection_rejects:
  assumes "fileInput_files s = file # rest"
    and "file_type file \<noteq> ''audio/wav'' \<or> 50 * 1024 * 1024 < file_size file"
  shows "uploadButton_disabled (handleFileSelection s) \<and>
         statusIndicator_textContent (handleFileSelection s) =
           (if file_type file \<noteq> ''audio/wav'' then ''Error: Please select a WAV file''
            else ''Error: File size exceeds 50MB limit'') \<and>
         requests (handleFileSelection s) = requests s \<and>
         fire (Click timestamp progress outcome) (handleFileSelection s) = handleFileSelection s"
  using assms by (auto simp add: handleFileSelection_def maxFileSize_def)

theorem handleFileSelection_rejects_witness:
  "fileInput_files (initialPage\<lparr>fileInput_files := [wav ''big.wav'' 52428801]\<rparr>)
     = wav ''big.wav'' 52428801 # [] \<and>
   (50::nat) * 1024 * 1024 < file_size (wav ''big.wav'' 52428801) \<and>
   uploadButton_disabled
     (handleFileSelection (initialPage\<lparr>fileInput_files := [wav ''big.wav'' 52428801]\<rparr>)) \<and>
   statusIndicator_textContent
     (handleFileSelection (initialPage\<lparr>fileInput_files := [wav ''big.wav'' 52428801]\<rparr>))
     = ''Error: File size exceeds 50MB limit'' \<and>
   requests (handleFileSelection (initialPage\<lparr>fileInput_files := [wav ''big.wav'' 52428801]\<rparr>))
     = []"
  using handleFileSelection_rejects
    [of "initialPage\<lparr>fileInput_files := [wav ''big.wav'' 52428801]\<rparr>"
        "wav ''big.wav'' 52428801" "[]"]
  by (simp add: wav_def initialPage_def)

text \<open>
  Claim C6, as amended. For a first selected file of media type \<^verbatim>\<open>audio/wav\<close> and of at
  most \<open>50 * 1024 * 1024\<close> bytes, \<^verbatim>\<open>handleFileSelection\<close> enables the upload button and
  sets the status to \<^verbatim>\<open>Selected: name (SMB)\<close>, the unit inside the parentheses, where \<open>S\<close>
  is what \<^verbatim>\<open>toFixed(2)\<close> makes of \<^verbatim>\<open>file.size / 1024 / 1024\<close>: the digits of the nearest
  hundredth \<open>h\<close> of the size in megabytes (the upper one of two), with a point before the
  last two. The two divisions are exact in binary64 arithmetic.
\<close>

theorem handleFileSelection_accepts:
  assumes "fileInput_files s = file # rest"
    and "file_type file = ''audio/wav''"
    and "file_size file \<le> 50 * 1024 * 1024"
  shows "let megabytes = of_nat (file_size file) / (1024 * 1024) :: rat;
             h = nat \<lfloor>megabytes * 100 + 1 / 2\<rfloor>;
             S = decimal (h div 100) @ ''.'' @ [digit (h div 10 mod 10), digit (h mod 10)]
         in \<not> uploadButton_disabled (handleFileSelection s) \<and>
            statusIndicator_textContent (handleFileSelection s) =
              ''Selected: '' @ file_name file @ '' ('' @ S @ ''MB)'' \<and>
            S = toFixed 2 (js_divide (js_divide (Number_of_nat (file_size file)) (Finite 1024))
                                     (Finite 1024)) \<and>
            \<bar>of_nat h / 100 - megabytes\<bar> \<le> 1 / 200"
proof -
  define megabytes :: rat where "megabytes = of_nat (file_size file) / (1024 * 1024)"
  define h where "h = nat \<lfloor>megabytes * 100 + 1 / 2\<rfloor>"
  define S where "S = decimal (h div 100) @ ''.'' @ [digit (h div 10 mod 10), digit (h mod 10)]"
  have small: "file_size file < 2 ^ 53" using assms(3) by simp
  have "of_nat (file_size file) \<le> (50 * 1024 * 1024 :: rat)"
    using assms(3) by (metis of_nat_le_iff of_nat_numeral of_nat_mult)
  then have lt: "\<not> (10 ^ 21 \<le> megabytes)"
    by (simp add: field_simps megabytes_def)
  have tf: "toFixed_digits 2 megabytes = S"
    unfolding S_def h_def by (simp only: toFixed_digits_2 Let_def)
  have enabled: "\<not> uploadButton_disabled (handleFileSelection s)"
    by (simp add: handleFileSelection_valid [OF assms])
  have status: "statusIndicator_textContent (handleFileSelection s) =
                  ''Selected: '' @ file_name file @ '' ('' @ S @ ''MB)''"
    unfolding tf [symmetric] megabytes_def by (simp add: handleFileSelection_valid [OF assms])
  have fixed: "S = toFixed 2 (js_divide (js_divide (Number_of_nat (file_size file)) (Finite 1024))
                                        (Finite 1024))"
    unfolding size_in_megabytes [OF small] megabytes_def [symmetric]
    using lt tf by (simp add: toFixed_def)
  have "0 \<le> \<lfloor>megabytes * 100 + 1 / 2\<rfloor>"
    by (simp add: megabytes_def)
  then have near: "\<bar>of_nat h / 100 - megabytes\<bar> \<le> 1 / 200"
    using nearest_hundredth [of megabytes] by (simp add: h_def)
  from enabled status fixed near show ?thesis
    unfolding Let_def megabytes_def h_def S_def by (intro conjI)
qed

theorem handleFileSelection_accepts_witness:
  "fileInput_files (initialPage\<lparr>fileInput_files := [wav ''test.wav'' 1234567]\<rparr>)
     = wav ''test.wav'' 1234567 # [] \<and>
   file_type (wav ''test.wav'' 1234567) = ''audio/wav'' \<and>
   file_size (wav ''test.wav'' 1234567) \<le> 50 * 1024 * 1024 \<and>
   \<not> uploadButton_disabled
     (handleFileSelection (initialPage\<lparr>fileInput_files := [wav ''test.wav'' 1234567]\<rparr>)) \<and>
   statusIndicator_textContent
     (handleFileSelection (initialPage\<lparr>fileInput_files := [wav ''test.wav'' 1234567]\<rparr>))
     = ''Selected: test.wav (1.18MB)''"
  using handleFileSelection_accepts
    [of "initialPage\<lparr>fileInput_files := [wav ''test.wav'' 1234567]\<rparr>"
        "wav ''test.wav'' 1234567" "[]"]
  by (simp add: wav_def initialPage_def Let_def decimal_small digit_def)

text \<open>
  Claim C6 as stated puts the unit after the closing parenthesis,
  \<^verbatim>\<open>Selected: name (S)MB\<close>. For a file of one megabyte \<open>S\<close> is \<^verbatim>\<open>1.00\<close> and the status is
  \<^verbatim>\<open>Selected: test.wav (1.00MB)\<close>.
\<close>

theorem handleFileSelection_status_counterexample:
  "file_type (wav ''test.wav'' 1048576) = ''audio/wav'' \<and>
   file_size (wav ''test.wav'' 1048576) \<le> 50 * 1024 * 1024 \<and>
   toFixed 2 (js_divide (js_divide (Number_of_nat 1048576) (Finite 1024)) (Finite 1024))
     = ''1.00'' \<and>
   statusIndicator_textContent (pageWith (wav ''test.wav'' 1048576))
     = ''Selected: test.wav (1.00MB)'' \<and>
   statusIndicator_textContent (pageWith (wav ''test.wav'' 1048576))
     \<noteq> ''Selected: test.wav (1.00)MB''"
proof -
  have t: "file_type (wav ''test.wav'' 1048576) = ''audio/wav''"
    and z: "file_size (wav ''test.wav'' 1048576) \<le> 50 * 1024 * 1024"
    by (simp_all add: wav_def)
  have n: "toFixed_digits 2 (of_nat (file_size (wav ''test.wav'' 1048576)) / (1024 * 1024)) = ''1.00''"
    using megabytes_1048576 by (simp add: wav_def)
  have f: "toFixed 2 (js_divide (js_divide (Number_of_nat 1048576) (Finite 1024)) (Finite 1024))
             = ''1.00''"
    using megabytes_1048576 by (simp add: size_in_megabytes toFixed_def)
  have st: "statusIndicator_textContent (pageWith (wav ''test.wav'' 1048576))
              = ''Selected: test.wav (1.00MB)''"
    unfolding pageWith_status(1) [OF t z] n by (simp add: wav_def)
  show ?thesis using t z f st by simp
qed




section \<open>The health check\<close>

text \<open>
  Claim C8. When the health request rejects, or resolves to a response that is not 2xx,
  while no file is selected (as at page load, whatever events arrived while the request
  was pending), the file input is disabled and the status reads
  \<^verbatim>\<open>Error: Cannot connect to transcription service\<close>; and after every sequence of
  further events the file input is still disabled.
\<close>

theorem failed_health_check_is_permanent:
  assumes "fileInput_files (run before s0) = []"
    and "health = Rejected msg \<or> (\<exists>status statusText body.
           health = Resolved status statusText body \<and> \<not> response_ok status)"
  shows "fileInput_disabled (page s0 before health []) \<and>
         statusIndicator_textContent (page s0 before health []) =
           ''Error: Cannot connect to transcription service'' \<and>
         (\<forall>after. fileInput_disabled (page s0 before health after))"
proof -
  define s1 where "s1 = checkAPIConnection health (run before s0)"
  have d: "fileInput_disabled s1" and t: "statusIndicator_textContent s1 =
      ''Error: Cannot connect to transcription service''"
    unfolding s1_def using checkAPIConnection_failed [OF assms(2)] by simp_all
  have f: "fileInput_files s1 = []" using assms(1) by (simp add: s1_def)
  have "run after s1 = s1" for after using d f by (rule run_disabled)
  then show ?thesis using d t by (simp add: page_def s1_def [symmetric])
qed

theorem failed_health_check_is_permanent_witness:
  "fileInput_files (run [Click ''10:14:00'' [] (Rejected ''Failed to fetch'')] initialPage) = [] \<and>
   \<not> response_ok 503 \<and>
   fileInput_disabled
     (page initialPage [Click ''10:14:00'' [] (Rejected ''Failed to fetch'')]
        (Resolved 503 ''Service Unavailable'' ())
        [Change [wav ''test.wav'' 1048576],
         Click ''10:15:00'' [] (Resolved 200 ''OK'' (Readable hello))]) \<and>
   statusIndicator_textContent
     (page initialPage [Click ''10:14:00'' [] (Rejected ''Failed to fetch'')]
        (Resolved 503 ''Service Unavailable'' ()) []) =
     ''Error: Cannot connect to transcription service''"
proof -
  have a: "fileInput_files (run [Click ''10:14:00'' [] (Rejected ''Failed to fetch'')] initialPage) = []"
    by (simp add: run_def initialPage_def)
  have b: "\<not> response_ok 503" by (simp add: response_ok_def)
  have c: "Resolved 503 ''Service Unavailable'' () = Rejected [] \<or>
           (\<exists>status statusText body. Resolved 503 ''Service Unavailable'' ()
              = Resolved status statusText body \<and> \<not> response_ok status)"
    using b by simp
  from failed_health_check_is_permanent [OF a c] a b show ?thesis by simp
qed

section \<open>Upload progress\<close>




section \<open>Rendering results\<close>

text \<open>
  Claim C10. \<^verbatim>\<open>displayResults\<close> copies the \<^verbatim>\<open>text\<close> of a successful result, and the
  \<^verbatim>\<open>error\<close> of a failed one, into the markup of the results box as it is: whatever the
  string, the markup assigned contains it character for character. (The only run that
  assigns nothing is a successful result with no file selected, which throws.)
\<close>

theorem displayResults_interpolates_verbatim:
  "case displayResults timestamp result s of
     Inr s' \<Rightarrow>
       sublist (if result_success result then result_text result else result_error result)
         (resultsBox_innerHTML s')
   | Inl e \<Rightarrow> result_success result \<and> fileInput_files s = []"
  by (cases "fileInput_files s")
     (auto simp add: displayResults_def
        intro!: sublist_ConsI sublist_grow sublist_in_transcriptionEntry sublist_in_errorEntry)

theorem displayResults_interpolates_verbatim_witness:
  "displayResults ''10:15:00''
     (hello\<lparr>result_text := ''<img src=x onerror=alert(1)>''\<rparr>)
     (pageWith (wav ''test.wav'' 1048576)) =
   Inr ((pageWith (wav ''test.wav'' 1048576))
     \<lparr>resultsBox_innerHTML :=
        ''\<newline>            ''
        @ transcriptionEntry ''10:15:00'' ''<img src=x onerror=alert(1)>'' ''1.2'' ''test.wav''
        @ ''\<newline>            \<newline>        '',
      statusIndicator_textContent := ''Transcription complete''\<rparr>) \<and>
   sublist ''<img src=x onerror=alert(1)>''
     (''\<newline>            ''
        @ transcriptionEntry ''10:15:00'' ''<img src=x onerror=alert(1)>'' ''1.2'' ''test.wav''
        @ ''\<newline>            \<newline>        '')"
  using displayResults_interpolates_verbatim
    [where timestamp = "''10:15:00''"
       and result = "hello\<lparr>result_text := ''<img src=x onerror=alert(1)>''\<rparr>"
       and s = "pageWith (wav ''test.wav'' 1048576)"]
  by (simp add: displayResults_def hello_def wav_def)

end
